theory Spec2Isabelle
  imports Complex_Main "HOL-Library.Sublist"
begin

section \<open>Text primitives of the host language\<close>

text \<open>
  Source texts are Python \<open>str\<close> values. They are modelled as \<open>string\<close>, one
  \<open>char\<close> per code point, which covers the code points below 256. The character
  classes below are those the interpreter uses for \<open>str.strip\<close>, \<open>str.splitlines\<close>
  and the regular-expression classes \<open>\s\<close> and \<open>\w\<close> on that range.
\<close>

definition LF :: char where
  "LF = CHR 0x0A"

definition CR :: char where
  "CR = CHR 0x0D"

definition QUOTE :: char where
  "QUOTE = CHR 0x27"

definition DQUOTE :: char where
  "DQUOTE = CHR 0x22"

definition isspace :: "char \<Rightarrow> bool" where
  "isspace c \<longleftrightarrow> c \<in> {CHR 0x09, CHR 0x0A, CHR 0x0B, CHR 0x0C, CHR 0x0D,
                      CHR 0x1C, CHR 0x1D, CHR 0x1E, CHR 0x1F, CHR 0x20, CHR 0x85, CHR 0xA0}"

definition isword :: "char \<Rightarrow> bool" where
  "isword c \<longleftrightarrow> (let n = (of_char c :: nat) in
      (48 \<le> n \<and> n \<le> 57) \<or> (65 \<le> n \<and> n \<le> 90) \<or> n = 95 \<or> (97 \<le> n \<and> n \<le> 122)
      \<or> n = 170 \<or> n = 178 \<or> n = 179 \<or> n = 181 \<or> n = 185 \<or> n = 186
      \<or> (188 \<le> n \<and> n \<le> 190) \<or> (192 \<le> n \<and> n \<le> 214)
      \<or> (216 \<le> n \<and> n \<le> 246) \<or> (248 \<le> n \<and> n \<le> 255))"

definition is_linebreak :: "char \<Rightarrow> bool" where
  "is_linebreak c \<longleftrightarrow> c \<in> {CHR 0x0A, CHR 0x0B, CHR 0x0C, CHR 0x0D,
                           CHR 0x1C, CHR 0x1D, CHR 0x1E, CHR 0x85}"

definition lstrip :: "string \<Rightarrow> string" where
  "lstrip s = dropWhile isspace s"

definition rstrip :: "string \<Rightarrow> string" where
  "rstrip s = rev (dropWhile isspace (rev s))"

definition strip :: "string \<Rightarrow> string" where
  "strip s = rstrip (lstrip s)"

text \<open>
  \<open>s.startswith(p)\<close>, and the same for a tuple of prefixes: some element is a prefix
  of \<open>s\<close>. \<open>skip_lit p s\<close> is what is left of \<open>s\<close> after the leading \<open>p\<close>.
\<close>

fun startswith :: "string \<Rightarrow> string \<Rightarrow> bool" where
  "startswith s [] = True"
| "startswith [] (a # p) = False"
| "startswith (b # s) (a # p) = (if a = b then startswith s p else False)"

definition startswith_any :: "string \<Rightarrow> string list \<Rightarrow> bool" where
  "startswith_any s ps = list_ex (startswith s) ps"

fun skip_lit :: "string \<Rightarrow> string \<Rightarrow> string option" where
  "skip_lit [] s = Some s"
| "skip_lit (a # p) [] = None"
| "skip_lit (a # p) (b # s) = (if a = b then skip_lit p s else None)"

text \<open>\<open>t in s\<close> on strings: \<open>t\<close> occurs in \<open>s\<close> as a contiguous block.\<close>

fun contains :: "string \<Rightarrow> string \<Rightarrow> bool" where
  "contains [] t = (t = [])"
| "contains (c # cs) t = (if startswith (c # cs) t then True else contains cs t)"

text \<open>
  \<open>str.splitlines()\<close>: a line ends at a line break (\<open>\r\n\<close> counts once), the
  terminators are dropped, and a text ending in a terminator has no empty last line.
\<close>

fun splitlines_from :: "string \<Rightarrow> string \<Rightarrow> string list" where
  "splitlines_from cur [] = (if cur = [] then [] else [cur])"
| "splitlines_from cur (c # cs) =
     (if c = CR then
        (case cs of
           [] \<Rightarrow> [cur]
         | d # ds \<Rightarrow> if d = LF then cur # splitlines_from [] ds
                     else cur # splitlines_from [] (d # ds))
      else if is_linebreak c then cur # splitlines_from [] cs
      else splitlines_from (cur @ [c]) cs)"

definition splitlines :: "string \<Rightarrow> string list" where
  "splitlines s = splitlines_from [] s"

text \<open>\<open>"\n".join(lines)\<close>.\<close>

fun join_lines :: "string list \<Rightarrow> string" where
  "join_lines [] = []"
| "join_lines [l] = l"
| "join_lines (l # m # ls) = l @ LF # join_lines (m # ls)"

section \<open>Exceptions\<close>

text \<open>
  An exception value carries its class and the text \<open>str(e)\<close>. \<open>BaseOnly\<close> stands for
  the classes that derive from \<open>BaseException\<close> without deriving from \<open>Exception\<close>
  (\<open>BaseException\<close> itself, \<open>SystemExit\<close>, \<open>KeyboardInterrupt\<close>, ...).
\<close>

datatype exc_class =
    ImportError | ValueError | RuntimeError | SyntaxError | NameError
  | AttributeError | IndexError | OtherException string | BaseOnly string

datatype pyexc = Exc exc_class string

fun exc_str :: "pyexc \<Rightarrow> string" where
  "exc_str (Exc c m) = m"

fun is_Exception :: "pyexc \<Rightarrow> bool" where
  "is_Exception (Exc (BaseOnly n) m) = False"
| "is_Exception (Exc c m) = True"

section \<open>The import hook\<close>

text \<open>
  \<open>ALLOWED_MODULE_PREFIXES\<close>, \<open>ALLOWED_STD_MODULES\<close> and \<open>_safe_import\<close> are the same
  in \<open>dynamic_with_gradio.py\<close> and \<open>dynamic_agent.py\<close>.
\<close>

definition ALLOWED_MODULE_PREFIXES :: "string list" where
  "ALLOWED_MODULE_PREFIXES = [''google'', ''asyncio'', ''typing'']"

definition ALLOWED_STD_MODULES :: "string set" where
  "ALLOWED_STD_MODULES = {''io'', ''json'', ''re'', ''os'', ''contextlib'', ''types'', ''collections''}"

text \<open>
  The hook does one of two things: it raises, or it returns what the interpreter's own
  \<open>__import__\<close> yields for the arguments it was given.
\<close>

datatype ('g, 'l, 'f) import_action =
    CallRealImport string 'g 'l 'f int
  | Raise pyexc

definition safe_import :: "string \<Rightarrow> 'g \<Rightarrow> 'l \<Rightarrow> 'f \<Rightarrow> int \<Rightarrow> ('g, 'l, 'f) import_action" where
  "safe_import name globals locals fromlist level =
     (if startswith_any name ALLOWED_MODULE_PREFIXES \<or> name \<in> ALLOWED_STD_MODULES
      then CallRealImport name globals locals fromlist level
      else Raise (Exc ImportError
             (''Import of '' @ [QUOTE] @ name @ [QUOTE] @ '' is not allowed in this runner.'')))"

fun is_Raise :: "('g, 'l, 'f) import_action \<Rightarrow> bool" where
  "is_Raise (Raise e) = True"
| "is_Raise (CallRealImport n g l f k) = False"

section \<open>The generation wrapper\<close>

text \<open>
  \<open>_llm_completion\<close>. The call \<open>litellm.completion(...)\<close> is the parameter
  \<open>completion\<close>: its outcome at each attempt, an exception or a response. The result
  is the exception raised, the response returned, or \<open>None\<close> when the loop ends
  without returning. The handler is \<open>except Exception\<close>: a failure that is not an
  instance of \<open>Exception\<close> is not caught and leaves the wrapper at that attempt. The events are the effects in order: the assignment of the key,
  the attempts, and the calls of \<open>time.sleep\<close> with their argument (taken as the exact
  number \<open>0.75 * 2 ** attempt\<close>; an exception of the sleep is swallowed by the source).
\<close>

datatype llm_event = SetApiKey string | Attempt int | Sleep real

fun llm_attempts ::
  "(int \<Rightarrow> pyexc + 'r) \<Rightarrow> int \<Rightarrow> int list \<Rightarrow> (pyexc + 'r option) \<times> llm_event list" where
  "llm_attempts completion max_retries [] = (Inr None, [])"
| "llm_attempts completion max_retries (attempt # rest) =
     (case completion attempt of
        Inr resp \<Rightarrow> (Inr (Some resp), [Attempt attempt])
      | Inl e \<Rightarrow>
          if \<not> is_Exception e then (Inl e, [Attempt attempt])
          else if attempt < max_retries - 1
          then (case llm_attempts completion max_retries rest of
                  (res, evs) \<Rightarrow> (res, Attempt attempt # Sleep (0.75 * 2 ^ nat attempt) # evs))
          else (Inl e, [Attempt attempt]))"

definition llm_completion ::
  "(int \<Rightarrow> pyexc + 'r) \<Rightarrow> string \<Rightarrow> int \<Rightarrow> (pyexc + 'r option) \<times> llm_event list" where
  "llm_completion completion api_key max_retries =
     (case llm_attempts completion max_retries [0..max_retries - 1] of
        (res, evs) \<Rightarrow> (res, (if api_key \<noteq> [] then [SetApiKey api_key] else []) @ evs))"

fun is_Attempt :: "llm_event \<Rightarrow> bool" where
  "is_Attempt (Attempt k) = True"
| "is_Attempt (SetApiKey s) = False"
| "is_Attempt (Sleep d) = False"

text \<open>
  The retry count as \<open>generate_and_run\<close> normalises it:
  \<open>try: max_retries = max(0, int(retries)) except Exception: max_retries = 2\<close>.
  The argument is the outcome of \<open>int(retries)\<close>, \<open>None\<close> when it raises.
\<close>

definition normalize_retries :: "int option \<Rightarrow> int" where
  "normalize_retries r = (case r of Some n \<Rightarrow> max 0 n | None \<Rightarrow> 2)"




section \<open>The source patcher\<close>

text \<open>
  \<open>_patch_generated_code\<close>. Its regular expressions are matched by hand-written
  scanners built from the pieces below: \<open>skip_space\<close> is \<open>\s*\<close>, \<open>skip_space1\<close> is
  \<open>\s+\<close>, \<open>skip_word1\<close> is \<open>\w+\<close>, \<open>skip_lit\<close> a literal. In every pattern of the
  patcher a greedy run of a class is followed by a literal outside that class, so no
  shorter run can lead to a match and the scanners need not backtrack.
\<close>

definition skip_space :: "string \<Rightarrow> string" where
  "skip_space s = dropWhile isspace s"

definition skip_space1 :: "string \<Rightarrow> string option" where
  "skip_space1 s = (case s of [] \<Rightarrow> None | c # cs \<Rightarrow> if isspace c then Some (dropWhile isspace cs) else None)"

definition skip_word1 :: "string \<Rightarrow> string option" where
  "skip_word1 s = (case s of [] \<Rightarrow> None | c # cs \<Rightarrow> if isword c then Some (dropWhile isword cs) else None)"

definition indent_of :: "string \<Rightarrow> nat" where
  "indent_of line = length line - length (lstrip line)"

text \<open>
  The three tests of step 1 on a line: \<open>\s*async\s+def\s+run_once\s*\(\<close>,
  \<open>\s*(def|async\s+def)\s+\w+\s*\(\<close> and \<open>^\s*print\(.*\)\s*$\<close>, each matched
  from the start of the line. \<open>call_tail\<close> is the end \<open>(.*)\)\s*$\<close> of a pattern: the
  last character before the trailing whitespace is the closing parenthesis, and the
  group, which holds what precedes it, has no newline.
\<close>

definition is_run_once_def :: "string \<Rightarrow> bool" where
  "is_run_once_def line =
     (Option.bind (skip_lit ''async'' (skip_space line)) (\<lambda>r1.
      Option.bind (skip_space1 r1) (\<lambda>r2.
      Option.bind (skip_lit ''def'' r2) (\<lambda>r3.
      Option.bind (skip_space1 r3) (\<lambda>r4.
      Option.bind (skip_lit ''run_once'' r4) (\<lambda>r5.
      skip_lit ''('' (skip_space r5)))))) \<noteq> None)"

definition is_def_line :: "string \<Rightarrow> bool" where
  "is_def_line line =
     (Option.bind
        (case skip_lit ''def'' (skip_space line) of
           Some r \<Rightarrow> Some r
         | None \<Rightarrow> Option.bind (skip_lit ''async'' (skip_space line)) (\<lambda>r1.
                   Option.bind (skip_space1 r1) (\<lambda>r2. skip_lit ''def'' r2)))
        (\<lambda>r3. Option.bind (skip_space1 r3) (\<lambda>r4.
               Option.bind (skip_word1 r4) (\<lambda>r5. skip_lit ''('' (skip_space r5)))) \<noteq> None)"

definition call_tail :: "string \<Rightarrow> string option" where
  "call_tail r = (let t = rstrip r in
      if t \<noteq> [] \<and> last t = CHR '')'' \<and> LF \<notin> set (butlast t) then Some (butlast t) else None)"

definition is_pure_print :: "string \<Rightarrow> bool" where
  "is_pure_print line =
     (Option.bind (skip_lit ''print('' (skip_space line)) call_tail \<noteq> None)"

text \<open>
  Step 1, the loop over the lines with its three variables. \<open>run_indent\<close> is \<open>None\<close>
  until the header of \<open>run_once\<close> is seen; the source reads it as \<open>run_indent or 0\<close>.
\<close>

record strip_state =
  in_run_once :: bool
  run_indent :: "nat option"
  out_lines :: "string list"

definition strip_step :: "strip_state \<Rightarrow> string \<Rightarrow> strip_state" where
  "strip_step st line =
     (if \<not> in_run_once st \<and> is_run_once_def line
      then st\<lparr>in_run_once := True, run_indent := Some (indent_of line),
               out_lines := out_lines st @ [line]\<rparr>
      else if in_run_once st
      then (if is_def_line line
               \<and> indent_of line \<le> (case run_indent st of None \<Rightarrow> 0 | Some n \<Rightarrow> n)
            then st\<lparr>in_run_once := False, out_lines := out_lines st @ [line]\<rparr>
            else if is_pure_print line then st
            else st\<lparr>out_lines := out_lines st @ [line]\<rparr>)
      else st\<lparr>out_lines := out_lines st @ [line]\<rparr>)"

definition strip_run_once_prints :: "string \<Rightarrow> string" where
  "strip_run_once_prints code =
     join_lines (out_lines (foldl strip_step
        \<lparr>in_run_once = False, run_indent = None, out_lines = []\<rparr> (splitlines code)))"

text \<open>
  Step 2, \<open>_normalize_create_session\<close>. \<open>create_session_match\<close> is the pattern
  \<open>^(\s*)(?:await\s+)?session_service\.create_session\((.*)\)\s*$\<close> and yields its two
  groups.
\<close>

definition create_session_match :: "string \<Rightarrow> (string \<times> string) option" where
  "create_session_match line =
     (let indent = takeWhile isspace line;
          r0 = dropWhile isspace line;
          r1 = (case Option.bind (skip_lit ''await'' r0) skip_space1 of
                  Some r \<Rightarrow> r
                | None \<Rightarrow> r0)
      in Option.bind (skip_lit ''session_service.create_session('' r1) (\<lambda>r2.
         map_option (\<lambda>args. (indent, args)) (call_tail r2)))"

definition normalize_step :: "string list \<Rightarrow> string \<Rightarrow> string list" where
  "normalize_step new_lines line =
     (case create_session_match line of
        Some (indent, args) \<Rightarrow>
          new_lines @ [indent @ ''_maybe = session_service.create_session('' @ args @ '')'',
                       indent @ ''if hasattr(_maybe, '__await__'):'',
                       indent @ ''    await _maybe'']
      | None \<Rightarrow> new_lines @ [line])"

definition normalize_create_session :: "string \<Rightarrow> string" where
  "normalize_create_session src = join_lines (foldl normalize_step [] (splitlines src))"

text \<open>Step 3, the header with the three constants.\<close>

definition CONSTANTS_HEADER :: string where
  "CONSTANTS_HEADER = ''APP_NAME = 'dyn_adk'' @ [QUOTE, LF] @ ''USER_ID = 'user-1'' @ [QUOTE, LF]
      @ ''SESSION_ID = 'sess-1'' @ [QUOTE, LF, LF]"

definition need_constants :: "string \<Rightarrow> bool" where
  "need_constants patched \<longleftrightarrow>
     contains patched ''session_service.create_session''
     \<and> \<not> list_all (\<lambda>k. contains patched k) [''APP_NAME'', ''USER_ID'', ''SESSION_ID'']"

definition inject_constants :: "string \<Rightarrow> string" where
  "inject_constants patched = (if need_constants patched then CONSTANTS_HEADER @ patched else patched)"

text \<open>
  Step 4. \<open>guard_typo_match nm mn\<close> is the pattern
  \<open>\bif\s+nm\s*==\s*['"]mn['"]\s*:\<close> at a position of the text, given the character
  before it, and yields the length of the match. \<open>re_sub\<close> is \<open>re.sub\<close> for a pattern
  that matches no empty string: it scans from the left, writes the replacement for a
  match and goes on behind it. \<open>guard_without_body\<close> is the search for
  \<open>if __name__ == "__main__":\s*$\<close>.
\<close>

definition skip_quote :: "string \<Rightarrow> string option" where
  "skip_quote s = (case s of [] \<Rightarrow> None | c # cs \<Rightarrow> if c = QUOTE \<or> c = DQUOTE then Some cs else None)"

definition word_boundary_before :: "char option \<Rightarrow> bool" where
  "word_boundary_before prev = (case prev of None \<Rightarrow> True | Some p \<Rightarrow> \<not> isword p)"

definition guard_typo_match :: "string \<Rightarrow> string \<Rightarrow> char option \<Rightarrow> string \<Rightarrow> nat option" where
  "guard_typo_match nm mn prev s =
     (if word_boundary_before prev then
        Option.bind (skip_lit ''if'' s) (\<lambda>r1.
        Option.bind (skip_space1 r1) (\<lambda>r2.
        Option.bind (skip_lit nm r2) (\<lambda>r3.
        Option.bind (skip_lit ''=='' (skip_space r3)) (\<lambda>r4.
        Option.bind (skip_quote (skip_space r4)) (\<lambda>r5.
        Option.bind (skip_lit mn r5) (\<lambda>r6.
        Option.bind (skip_quote r6) (\<lambda>r7.
        Option.bind (skip_lit '':'' (skip_space r7)) (\<lambda>r8.
        Some (length s - length r8)))))))))
      else None)"

fun re_sub :: "(char option \<Rightarrow> string \<Rightarrow> nat option) \<Rightarrow> string \<Rightarrow> char option \<Rightarrow> nat \<Rightarrow> string \<Rightarrow> string" where
  "re_sub m repl prev k [] = []"
| "re_sub m repl prev k (c # cs) =
     (if k > 0 then re_sub m repl (Some c) (k - 1) cs
      else (case m prev (c # cs) of
              Some n \<Rightarrow> repl @ re_sub m repl (Some c) (n - 1) cs
            | None \<Rightarrow> c # re_sub m repl (Some c) 0 cs))"

definition MAIN_GUARD :: string where
  "MAIN_GUARD = ''if __name__ == '' @ [DQUOTE] @ ''__main__'' @ [DQUOTE] @ '':''"

fun guard_without_body :: "string \<Rightarrow> bool" where
  "guard_without_body [] = False"
| "guard_without_body (c # cs) =
     (if (case skip_lit MAIN_GUARD (c # cs) of Some r \<Rightarrow> list_all isspace r | None \<Rightarrow> False)
      then True else guard_without_body cs)"

definition fix_main_guard :: "string \<Rightarrow> string" where
  "fix_main_guard patched =
     (let p1 = re_sub (guard_typo_match ''name'' ''main'') MAIN_GUARD None 0 patched;
          p2 = re_sub (guard_typo_match ''__name__'' ''main'') MAIN_GUARD None 0 p1;
          p3 = re_sub (guard_typo_match ''name'' ''__main__'') MAIN_GUARD None 0 p2
      in if guard_without_body p3
         then p3 @ [LF] @ ''    print(asyncio.run(run_once(INPUT_TEXT)))'' @ [LF]
         else p3)"

definition patch_generated_code :: "string \<Rightarrow> string" where
  "patch_generated_code code =
     fix_main_guard (inject_constants (normalize_create_session (strip_run_once_prints code)))"

text \<open>
  The shape of the lines that step 2 rewrites, in words: optional indentation, an
  optional \<open>await\<close> followed by whitespace, the call
  \<open>session_service.create_session(args)\<close>, and optional trailing whitespace, with
  nothing else on the line. \<open>guarded_await_lines\<close> are the three lines written in its
  place, and \<open>normalize_line\<close> is the effect of the step on one line.
\<close>

definition bare_create_session_line :: "string \<Rightarrow> string \<Rightarrow> string \<Rightarrow> bool" where
  "bare_create_session_line line indent args \<longleftrightarrow>
     (\<exists>aw trail.
        line = indent @ aw @ ''session_service.create_session('' @ args @ '')'' @ trail
        \<and> list_all isspace indent
        \<and> (aw = [] \<or> (\<exists>ws. aw = ''await'' @ ws \<and> ws \<noteq> [] \<and> list_all isspace ws))
        \<and> list_all isspace trail
        \<and> LF \<notin> set args)"



section \<open>Extraction and validation of the generated code\<close>

text \<open>
  \<open>CODE_FENCE.search(text)\<close> and \<open>_sanitize_fences\<close>. The patterns are matched by
  hand-written scanners. Each greedy run of a character class in them is followed by a
  literal outside the class, and the lazy group ends at the first closing fence, so a
  match, when there is one, is the one the scanner finds. A response is the list of the
  \<open>content\<close> fields of its choices. \<open>generate_adk_code_da\<close> is \<open>generate_adk_code\<close> of
  \<open>dynamic_agent.py\<close>, which calls the completion once, requires the \<open>python\<close> tag on
  the fence, and neither sanitises nor patches.
\<close>

definition FENCE :: string where
  "FENCE = [CHR 0x60, CHR 0x60, CHR 0x60]"

definition ascii_lower :: "char \<Rightarrow> char" where
  "ascii_lower c = (let n = (of_char c :: nat) in if 65 \<le> n \<and> n \<le> 90 then char_of (n + 32) else c)"

fun skip_lit_ci :: "string \<Rightarrow> string \<Rightarrow> string option" where
  "skip_lit_ci [] s = Some s"
| "skip_lit_ci (a # p) [] = None"
| "skip_lit_ci (a # p) (b # s) = (if a = ascii_lower b then skip_lit_ci p s else None)"

fun find_lit :: "string \<Rightarrow> string \<Rightarrow> (string \<times> string) option" where
  "find_lit p [] = (if p = [] then Some ([], []) else None)"
| "find_lit p (c # cs) =
     (case skip_lit p (c # cs) of
        Some r \<Rightarrow> Some ([], r)
      | None \<Rightarrow> map_option (\<lambda>(a, b). (c # a, b)) (find_lit p cs))"

definition skip_lang :: "string \<Rightarrow> string" where
  "skip_lang s =
     (case skip_lit_ci ''python'' s of
        Some r \<Rightarrow> r
      | None \<Rightarrow> (case skip_lit_ci ''py'' s of Some r \<Rightarrow> r | None \<Rightarrow> s))"

definition code_fence_search :: "string \<Rightarrow> string option" where
  "code_fence_search text =
     (case find_lit FENCE text of
        None \<Rightarrow> None
      | Some (before, r) \<Rightarrow> map_option fst (find_lit FENCE (skip_space (skip_lang r))))"

fun find_fence_python :: "string \<Rightarrow> string option" where
  "find_fence_python [] = None"
| "find_fence_python (c # cs) =
     (case Option.bind (skip_lit FENCE (c # cs)) (skip_lit_ci ''python'') of
        Some r \<Rightarrow> Some r
      | None \<Rightarrow> find_fence_python cs)"

definition code_fence_search_da :: "string \<Rightarrow> string option" where
  "code_fence_search_da text =
     (case find_fence_python text of
        None \<Rightarrow> None
      | Some r \<Rightarrow> map_option fst (find_lit FENCE (skip_space r)))"

definition is_langchar :: "char \<Rightarrow> bool" where
  "is_langchar c \<longleftrightarrow> (let n = (of_char c :: nat) in
      (48 \<le> n \<and> n \<le> 57) \<or> (65 \<le> n \<and> n \<le> 90) \<or> (97 \<le> n \<and> n \<le> 122) \<or> n = 95 \<or> n = 45)"

definition strip_leading_fence :: "string \<Rightarrow> string" where
  "strip_leading_fence code =
     (case skip_lit FENCE (skip_space code) of
        None \<Rightarrow> code
      | Some r \<Rightarrow>
          (let r1 = dropWhile is_langchar r; w = takeWhile isspace r1
           in if LF \<in> set w
              then rev (takeWhile (\<lambda>c. c \<noteq> LF) (rev w)) @ dropWhile isspace r1
              else code))"

fun strip_trailing_fence :: "string \<Rightarrow> string" where
  "strip_trailing_fence [] = []"
| "strip_trailing_fence (c # cs) =
     (case skip_lit (LF # FENCE) (c # cs) of
        Some r \<Rightarrow> if list_all isspace r then [] else c # strip_trailing_fence cs
      | None \<Rightarrow> c # strip_trailing_fence cs)"

definition sanitize_fences :: "string \<Rightarrow> string" where
  "sanitize_fences code = strip_trailing_fence (strip_leading_fence code)"

fun crlf_to_lf :: "string \<Rightarrow> string" where
  "crlf_to_lf (a # b # s) = (if a = CR \<and> b = LF then LF # crlf_to_lf s else a # crlf_to_lf (b # s))"
| "crlf_to_lf s = s"

type_synonym llm_response = "string option list"

definition response_text :: "llm_response option \<Rightarrow> pyexc + string" where
  "response_text resp =
     (case resp of
        None \<Rightarrow> Inl (Exc AttributeError
                  ([QUOTE] @ ''NoneType'' @ [QUOTE] @ '' object has no attribute '' @ [QUOTE] @ ''choices'' @ [QUOTE]))
      | Some [] \<Rightarrow> Inl (Exc IndexError ''list index out of range'')
      | Some (content # others) \<Rightarrow> Inr (case content of None \<Rightarrow> [] | Some t \<Rightarrow> t))"

definition extract_code :: "string \<Rightarrow> string option" where
  "extract_code text = map_option (\<lambda>g. crlf_to_lf (sanitize_fences (strip g))) (code_fence_search text)"

definition REQUIRED :: "string list" where
  "REQUIRED = [''from google.adk.agents import Agent'',
               ''from google.adk.runners import Runner'',
               ''from google.adk.sessions import InMemorySessionService'',
               ''from google.genai import types'',
               ''async def run_once'']"

definition generate_adk_code :: "(int \<Rightarrow> pyexc + llm_response) \<Rightarrow> string \<Rightarrow> int \<Rightarrow> pyexc + string" where
  "generate_adk_code completion api_key max_retries =
     (case fst (llm_completion completion api_key max_retries) of
        Inl e \<Rightarrow> Inl e
      | Inr resp \<Rightarrow>
          (case response_text resp of
             Inl e \<Rightarrow> Inl e
           | Inr text \<Rightarrow>
               (case extract_code text of
                  None \<Rightarrow> Inl (Exc ValueError ''No python code block found in LLM output.'')
                | Some code \<Rightarrow>
                    if list_all (contains code) REQUIRED
                    then Inr (patch_generated_code code)
                    else Inl (Exc ValueError ''Generated code missing required ADK pieces.''))))"

fun re_search :: "(char option \<Rightarrow> string \<Rightarrow> bool) \<Rightarrow> char option \<Rightarrow> string \<Rightarrow> bool" where
  "re_search m prev [] = m prev []"
| "re_search m prev (c # cs) = (if m prev (c # cs) then True else re_search m (Some c) cs)"

definition main_guard_at :: "char option \<Rightarrow> string \<Rightarrow> bool" where
  "main_guard_at prev s =
     (Option.bind (skip_lit ''if __name__'' s) (\<lambda>r1.
      Option.bind (skip_lit ''=='' (skip_space r1)) (\<lambda>r2.
      Option.bind (skip_quote (skip_space r2)) (\<lambda>r3.
      Option.bind (skip_lit ''__main__'' r3) skip_quote))) \<noteq> None)"

definition input_text_at :: "char option \<Rightarrow> string \<Rightarrow> bool" where
  "input_text_at prev s =
     (if word_boundary_before prev
      then (case skip_lit ''INPUT_TEXT'' s of
              None \<Rightarrow> False
            | Some r \<Rightarrow> (case r of [] \<Rightarrow> True | c # cs \<Rightarrow> \<not> isword c))
      else False)"

definition print_call_at :: "char option \<Rightarrow> string \<Rightarrow> bool" where
  "print_call_at prev s =
     (if word_boundary_before prev
      then (case skip_lit ''print'' s of
              None \<Rightarrow> False
            | Some r \<Rightarrow> skip_lit ''('' (skip_space r) \<noteq> None)
      else False)"

definition generate_adk_code_function_only ::
  "(int \<Rightarrow> pyexc + llm_response) \<Rightarrow> string \<Rightarrow> int \<Rightarrow> pyexc + string" where
  "generate_adk_code_function_only completion api_key max_retries =
     (case fst (llm_completion completion api_key max_retries) of
        Inl e \<Rightarrow> Inl e
      | Inr resp \<Rightarrow>
          (case response_text resp of
             Inl e \<Rightarrow> Inl e
           | Inr text \<Rightarrow>
               (case extract_code text of
                  None \<Rightarrow> Inl (Exc ValueError ''No python code block found in LLM output.'')
                | Some code \<Rightarrow>
                    if \<not> list_all (contains code) REQUIRED
                    then Inl (Exc ValueError
                           ''Generated code missing required ADK pieces or run_once signature.'')
                    else if list_ex (\<lambda>m. re_search m None code)
                              [main_guard_at, input_text_at, print_call_at]
                    then Inl (Exc ValueError
                           ''Generated code violated no-main / no-print / no-INPUT_TEXT rule.'')
                    else Inr code)))"

definition REQUIRED_da :: "string list" where
  "REQUIRED_da = [''google.adk.agents'', ''google.adk.runners'', ''google.adk.sessions'',
                  ''google.genai'', ''async def run_once'']"

definition extract_code_da :: "string \<Rightarrow> string option" where
  "extract_code_da text = map_option (\<lambda>g. crlf_to_lf (strip g)) (code_fence_search_da text)"

definition generate_adk_code_da :: "(pyexc + llm_response) \<Rightarrow> pyexc + string" where
  "generate_adk_code_da completion =
     (case completion of
        Inl e \<Rightarrow> Inl e
      | Inr resp \<Rightarrow>
          (case response_text (Some resp) of
             Inl e \<Rightarrow> Inl e
           | Inr text \<Rightarrow>
               (case extract_code_da text of
                  None \<Rightarrow> Inl (Exc ValueError ''No python code block found in LLM output.'')
                | Some code \<Rightarrow>
                    if list_all (contains code) REQUIRED_da
                    then Inr code
                    else Inl (Exc ValueError ''Generated code missing required ADK pieces.''))))"

definition FIXTURE_BODY :: string where
  "FIXTURE_BODY = ''from google.adk.agents import Agent\<newline>from google.adk.runners import Runner\<newline>from google.adk.sessions import InMemorySessionService\<newline>from google.genai import types\<newline>async def run_once(t): return t''"

definition FIXTURE_TEXT :: string where
  "FIXTURE_TEXT = FENCE @ ''python'' @ [LF] @ FIXTURE_BODY @ [LF] @ FENCE"

definition fixture_completion :: "int \<Rightarrow> pyexc + llm_response" where
  "fixture_completion k = Inr [Some FIXTURE_TEXT]"

definition BARE_BODY :: string where
  "BARE_BODY = ''async def run_once(t): return t''"

definition BARE_TEXT :: string where
  "BARE_TEXT = FENCE @ ''python'' @ [LF] @ BARE_BODY @ FENCE"

definition bare_completion :: "int \<Rightarrow> pyexc + llm_response" where
  "bare_completion k = Inr [Some BARE_TEXT]"

section \<open>The sandboxed executor\<close>

text \<open>
  \<open>run_generated_adk\<close>. A namespace is a dictionary, kept as an association list. The
  interpreter is a parameter, a \<open>runtime\<close>: which of the safe names the host's
  \<open>builtins\<close> module has, whether \<open>compile\<close> rejects a source, what \<open>exec\<close> of a
  source in a namespace does (the exception it ends in, if any, the text written to the
  redirected standard output, and the globals it leaves), what
  \<open>asyncio.run(run_once(input_text))\<close> returns, and the text of
  \<open>traceback.format_exc\<close>. \<open>run_generated_adk_da\<close> is the function of
  \<open>dynamic_agent.py\<close>, which has no function-only mode, catches nothing and adds the
  global \<open>y\<close>.
\<close>

datatype pyval =
    PyNone | PyStr string | PyInt int
  | PyBuiltin string | PySafeImport | PyFunction string | PyModule string
  | PyDict "(string \<times> pyval) list"

type_synonym namespace = "(string \<times> pyval) list"

definition SAFE_BUILTIN_NAMES :: "string list" where
  "SAFE_BUILTIN_NAMES =
     [''print'', ''len'', ''range'', ''enumerate'', ''zip'', ''min'', ''max'', ''abs'',
      ''str'', ''int'', ''float'', ''bool'', ''dict'', ''list'', ''set'', ''tuple'',
      ''isinstance'', ''issubclass'', ''getattr'', ''setattr'', ''hasattr'',
      ''object'', ''type'', ''property'', ''staticmethod'', ''classmethod'',
      ''sorted'', ''sum'', ''map'', ''filter'', ''any'', ''all'',
      ''Exception'', ''BaseException'', ''RuntimeError'', ''ValueError'',
      ''TypeError'', ''NameError'', ''ImportError'', ''KeyError'', ''IndexError'',
      ''__build_class__'']"

definition safe_builtins :: "(string \<Rightarrow> bool) \<Rightarrow> namespace" where
  "safe_builtins has_builtin =
     map (\<lambda>n. (n, PyBuiltin n)) (filter has_builtin SAFE_BUILTIN_NAMES)
     @ [(''__import__'', PySafeImport)]"

definition exec_globals :: "(string \<Rightarrow> bool) \<Rightarrow> string \<Rightarrow> namespace" where
  "exec_globals has_builtin input_text =
     [(''__builtins__'', PyDict (safe_builtins has_builtin)),
      (''__name__'', PyStr ''__main__''),
      (''__package__'', PyNone),
      (''__spec__'', PyNone),
      (''INPUT_TEXT'', PyStr input_text)]"


record exec_outcome =
  raised :: "pyexc option"
  stdout :: string
  globals_after :: namespace

record syntax_error =
  se_msg :: string
  se_lineno :: "int option"
  se_offset :: "int option"
  se_text :: "string option"

record runtime =
  has_builtin :: "string \<Rightarrow> bool"
  compile_error :: "string \<Rightarrow> syntax_error option"
  exec_code :: "string \<Rightarrow> namespace \<Rightarrow> exec_outcome"
  run_entry :: "pyval \<Rightarrow> string \<Rightarrow> pyexc + pyval"
  format_exc :: "pyexc \<Rightarrow> string"

fun callable :: "pyval \<Rightarrow> bool" where
  "callable (PyBuiltin n) = True"
| "callable PySafeImport = True"
| "callable (PyFunction n) = True"
| "callable v = False"

definition digit_char :: "nat \<Rightarrow> char" where
  "digit_char d = char_of (48 + d)"

function show_nat :: "nat \<Rightarrow> string" where
  "show_nat n = (if n < 10 then [digit_char n] else show_nat (n div 10) @ [digit_char (n mod 10)])"
  by pat_completeness auto
termination
  by (relation "measure id") auto

definition show_int :: "int \<Rightarrow> string" where
  "show_int i = (if i < 0 then ''-'' @ show_nat (nat (- i)) else show_nat (nat i))"

definition show_int_opt :: "int option \<Rightarrow> string" where
  "show_int_opt v = (case v of None \<Rightarrow> ''None'' | Some i \<Rightarrow> show_int i)"

definition rjust4 :: "string \<Rightarrow> string" where
  "rjust4 s = replicate (4 - length s) (CHR '' '') @ s"

definition syntax_error_report :: "string \<Rightarrow> syntax_error \<Rightarrow> string" where
  "syntax_error_report code se =
     (let lines = splitlines code;
          line_no = (case se_lineno se of None \<Rightarrow> 1 | Some n \<Rightarrow> if n = 0 then 1 else n);
          start = max 0 (line_no - 4);
          stop = min (int (length lines)) (line_no + 3);
          snippet = map (\<lambda>i. (if i + 1 = line_no then ''>> '' else ''   '')
                              @ rjust4 (show_int (i + 1)) @ '': '' @ lines ! nat i)
                        [start..stop - 1];
          err_line = ''line '' @ show_int_opt (se_lineno se) @ '', offset '' @ show_int_opt (se_offset se);
          err_src = (case se_text se of None \<Rightarrow> [] | Some t \<Rightarrow> t)
      in ''SyntaxError in generated code at '' @ err_line @ '':'' @ [LF] @ err_src
         @ [LF, LF] @ ''Context:'' @ [LF] @ join_lines snippet)"

definition run_function_only :: "runtime \<Rightarrow> string \<Rightarrow> string \<Rightarrow> pyexc + string" where
  "run_function_only rt code input_text =
     (case compile_error rt code of
        Some se \<Rightarrow> Inl (Exc SyntaxError (se_msg se))
      | None \<Rightarrow>
          (let r = exec_code rt code (exec_globals (has_builtin rt) input_text) in
           case raised r of
             Some e \<Rightarrow> Inl e
           | None \<Rightarrow>
               (case map_of (globals_after r) ''run_once'' of
                  None \<Rightarrow> Inl (Exc RuntimeError
                     ''Generated code did not define async run_once(user_text: str) -> str'')
                | Some f \<Rightarrow>
                    if \<not> callable f
                    then Inl (Exc RuntimeError
                       ''Generated code did not define async run_once(user_text: str) -> str'')
                    else (case run_entry rt f input_text of
                            Inl e \<Rightarrow> Inl e
                          | Inr (PyStr s) \<Rightarrow> Inr (strip s)
                          | Inr v \<Rightarrow> Inl (Exc AttributeError ''object has no attribute strip'')))))"

definition run_generated_adk :: "runtime \<Rightarrow> string \<Rightarrow> string \<Rightarrow> bool \<Rightarrow> pyexc + string" where
  "run_generated_adk rt code input_text function_only =
     (if function_only then
        (case run_function_only rt code input_text of
           Inr s \<Rightarrow> Inr s
         | Inl e \<Rightarrow>
             if is_Exception e
             then Inl (Exc RuntimeError
                    (''Execution error in function-only mode:'' @ [LF] @ format_exc rt e))
             else Inl e)
      else
        (case compile_error rt code of
           Some se \<Rightarrow> Inl (Exc SyntaxError (syntax_error_report code se))
         | None \<Rightarrow>
             (let r = exec_code rt code (exec_globals (has_builtin rt) input_text) in
              case raised r of
                Some e \<Rightarrow>
                  if is_Exception e
                  then Inl (Exc RuntimeError
                         (''Error while executing generated code: '' @ exc_str e @ [LF, LF]
                          @ ''Captured stdout:'' @ [LF] @ stdout r))
                  else Inl e
              | None \<Rightarrow> Inr (strip (stdout r)))))"


text \<open>
  One runtime to run examples on. It executes the sources whose lines are
  \<open>import m\<close>, \<open>print(e)\<close>, \<open>raise name\<close> or an expression \<open>e\<close> alone, where \<open>e\<close>
  is a name or one attribute of a name, one line after the other. A name is resolved in
  the globals and then in the mapping under \<open>__builtins__\<close>, and an import goes
  through the \<open>__import__\<close> found there, as the interpreter does. An allowed import is
  taken to succeed and binds the module; \<open>toy_module_attr\<close> lists the two attributes
  of the host's modules that the examples read, \<open>io.open\<close> (the built-in \<open>open\<close>) and
  \<open>os.sys\<close> (the module \<open>sys\<close>).
\<close>

datatype stmt = SImport string | SPrint string | SRaise string | SName string

definition parse_stmt :: "string \<Rightarrow> stmt" where
  "parse_stmt l =
     (case skip_lit ''import '' l of
        Some m \<Rightarrow> SImport m
      | None \<Rightarrow>
          (case skip_lit ''raise '' l of
             Some n \<Rightarrow> SRaise n
           | None \<Rightarrow>
               (case skip_lit ''print('' l of
                  Some r \<Rightarrow> if r \<noteq> [] \<and> last r = CHR '')'' then SPrint (butlast r) else SName l
                | None \<Rightarrow> SName l)))"

definition builtins_of :: "namespace \<Rightarrow> namespace" where
  "builtins_of g = (case map_of g ''__builtins__'' of Some (PyDict b) \<Rightarrow> b | _ \<Rightarrow> [])"

definition name_error :: "string \<Rightarrow> pyexc" where
  "name_error n = Exc NameError (''name '' @ [QUOTE] @ n @ [QUOTE] @ '' is not defined'')"

definition lookup_name :: "namespace \<Rightarrow> string \<Rightarrow> pyexc + pyval" where
  "lookup_name g n =
     (case map_of g n of
        Some v \<Rightarrow> Inr v
      | None \<Rightarrow> (case map_of (builtins_of g) n of Some v \<Rightarrow> Inr v | None \<Rightarrow> Inl (name_error n)))"

definition toy_module_attr :: "string \<Rightarrow> string \<Rightarrow> pyval option" where
  "toy_module_attr m a =
     (if m = ''io'' \<and> a = ''open'' then Some (PyBuiltin ''open'')
      else if m = ''os'' \<and> a = ''sys'' then Some (PyModule ''sys'')
      else None)"

definition get_attr :: "pyval \<Rightarrow> string \<Rightarrow> pyexc + pyval" where
  "get_attr v a =
     (case v of
        PyModule m \<Rightarrow>
          (case toy_module_attr m a of
             Some w \<Rightarrow> Inr w
           | None \<Rightarrow> Inl (Exc AttributeError (''no attribute '' @ a)))
      | _ \<Rightarrow> Inl (Exc AttributeError (''no attribute '' @ a)))"

definition eval_name :: "namespace \<Rightarrow> string \<Rightarrow> pyexc + pyval" where
  "eval_name g e =
     (case lookup_name g (takeWhile (\<lambda>c. c \<noteq> CHR ''.'') e) of
        Inl x \<Rightarrow> Inl x
      | Inr v \<Rightarrow>
          (case dropWhile (\<lambda>c. c \<noteq> CHR ''.'') e of
             [] \<Rightarrow> Inr v
           | d # a \<Rightarrow> get_attr v a))"

fun py_str :: "pyval \<Rightarrow> string" where
  "py_str (PyStr s) = s"
| "py_str PyNone = ''None''"
| "py_str (PyInt i) = show_int i"
| "py_str v = ''<object>''"

definition exec_stmt :: "exec_outcome \<Rightarrow> stmt \<Rightarrow> exec_outcome" where
  "exec_stmt st s =
     (let g = globals_after st in
      case s of
        SImport m \<Rightarrow>
          (case map_of (builtins_of g) ''__import__'' of
             Some PySafeImport \<Rightarrow>
               (case safe_import m g g () 0 of
                  Raise e \<Rightarrow> st\<lparr>raised := Some e\<rparr>
                | CallRealImport n a b c d \<Rightarrow>
                    st\<lparr>globals_after := (takeWhile (\<lambda>c. c \<noteq> CHR ''.'') m, PyModule m) # g\<rparr>)
           | _ \<Rightarrow> st\<lparr>raised := Some (Exc ImportError ''__import__ not found'')\<rparr>)
      | SPrint a \<Rightarrow>
          (case lookup_name g ''print'' of
             Inl e \<Rightarrow> st\<lparr>raised := Some e\<rparr>
           | Inr p \<Rightarrow>
               (case eval_name g a of
                  Inl e \<Rightarrow> st\<lparr>raised := Some e\<rparr>
                | Inr v \<Rightarrow> st\<lparr>stdout := stdout st @ py_str v @ [LF]\<rparr>))
      | SRaise n \<Rightarrow>
          (case lookup_name g n of
             Inl e \<Rightarrow> st\<lparr>raised := Some e\<rparr>
           | Inr v \<Rightarrow>
               st\<lparr>raised := Some (if n = ''BaseException'' then Exc (BaseOnly n) []
                                     else Exc (OtherException n) [])\<rparr>)
      | SName n \<Rightarrow>
          (case eval_name g n of
             Inl e \<Rightarrow> st\<lparr>raised := Some e\<rparr>
           | Inr v \<Rightarrow> st))"

fun exec_stmts :: "exec_outcome \<Rightarrow> stmt list \<Rightarrow> exec_outcome" where
  "exec_stmts st [] = st"
| "exec_stmts st (s # ss) =
     (let st' = exec_stmt st s in if raised st' \<noteq> None then st' else exec_stmts st' ss)"

definition toy_exec :: "string \<Rightarrow> namespace \<Rightarrow> exec_outcome" where
  "toy_exec code g =
     exec_stmts \<lparr>raised = None, stdout = [], globals_after = g\<rparr> (map parse_stmt (splitlines code))"

definition toy_runtime :: runtime where
  "toy_runtime =
     \<lparr>has_builtin = (\<lambda>n. True), compile_error = (\<lambda>c. None), exec_code = toy_exec,
      run_entry = (\<lambda>f x. Inr (PyStr x)), format_exc = exc_str\<rparr>"



section \<open>Evaluation rules\<close>

lemmas text_defs = LF_def CR_def isspace_def isword_def is_linebreak_def lstrip_def rstrip_def strip_def
  splitlines_def skip_space_def skip_space1_def skip_word1_def indent_of_def
lemmas step1_defs = is_run_once_def_def is_def_line_def call_tail_def is_pure_print_def strip_step_def
  strip_run_once_prints_def




section \<open>Properties of the import hook\<close>

lemma startswith_prefix: "startswith s p \<longleftrightarrow> prefix p s"
  by (induction s p rule: startswith.induct) auto

lemma startswith_any_prefixes:
  "startswith_any name ALLOWED_MODULE_PREFIXES \<longleftrightarrow>
     prefix ''google'' name \<or> prefix ''asyncio'' name \<or> prefix ''typing'' name"
  by (simp add: startswith_any_def ALLOWED_MODULE_PREFIXES_def startswith_prefix)

text \<open>
  C1. The import hook raises exactly for the names that neither begin with one of the
  three allowed prefixes nor are one of the seven allowed standard modules; the error
  is the import error naming the module. Every other name is handed, with the other
  four arguments unchanged, to the real import.
\<close>

theorem safe_import_rejects_iff_not_allowed:
  "(is_Raise (safe_import name g l f k) \<longleftrightarrow>
      \<not> ((\<exists>rest. name = ''google'' @ rest) \<or> (\<exists>rest. name = ''asyncio'' @ rest)
         \<or> (\<exists>rest. name = ''typing'' @ rest)
         \<or> name \<in> {''io'', ''json'', ''re'', ''os'', ''contextlib'', ''types'', ''collections''}))
   \<and> (is_Raise (safe_import name g l f k) \<longrightarrow>
        safe_import name g l f k = Raise (Exc ImportError
          (''Import of '' @ [QUOTE] @ name @ [QUOTE] @ '' is not allowed in this runner.'')))
   \<and> (\<not> is_Raise (safe_import name g l f k) \<longrightarrow>
        safe_import name g l f k = CallRealImport name g l f k)"
  unfolding safe_import_def startswith_any_prefixes ALLOWED_STD_MODULES_def prefix_def
  by simp

theorem safe_import_rejects_iff_not_allowed_witness:
  "is_Raise (safe_import ''socket'' () () () 0)
   \<and> safe_import ''socket'' () () () 0 = Raise (Exc ImportError
          (''Import of '' @ [QUOTE] @ ''socket'' @ [QUOTE] @ '' is not allowed in this runner.''))
   \<and> \<not> is_Raise (safe_import ''json'' () () () 0)
   \<and> safe_import ''json'' () () () 0 = CallRealImport ''json'' () () () 0"
  using safe_import_rejects_iff_not_allowed [of "''socket''" "()" "()" "()" 0]
        safe_import_rejects_iff_not_allowed [of "''json''" "()" "()" "()" 0]
  by simp

text \<open>
  C9. The allow-list test on prefixes is a plain test on the leading characters: any
  name that begins with \<open>google\<close>, \<open>asyncio\<close> or \<open>typing\<close> is delegated to the real
  import, whatever follows, so \<open>google_evil\<close> and \<open>asyncio2\<close> pass.
\<close>

theorem safe_import_plain_prefix:
  assumes "prefix ''google'' name \<or> prefix ''asyncio'' name \<or> prefix ''typing'' name"
  shows "safe_import name g l f k = CallRealImport name g l f k"
  using assms by (simp add: safe_import_def startswith_any_prefixes)

theorem safe_import_plain_prefix_witness:
  "safe_import ''google_evil'' () () () 0 = CallRealImport ''google_evil'' () () () 0
   \<and> safe_import ''asyncio2'' () () () 0 = CallRealImport ''asyncio2'' () () () 0"
  using safe_import_plain_prefix [of "''google_evil''" "()" "()" "()" 0]
        safe_import_plain_prefix [of "''asyncio2''" "()" "()" "()" 0]
  by simp

section \<open>Properties of the generation wrapper\<close>







text \<open>
  C10. With a retry count of 0 the wrapper makes no attempt and returns \<open>None\<close>
  without raising, and 0 is a count the front end passes down: its clamp
  \<open>max(0, int(retries))\<close> keeps 0 and maps every negative count to it.
\<close>

theorem llm_completion_zero_retries:
  "llm_completion completion key (normalize_retries (Some 0)) =
     (Inr None, if key \<noteq> [] then [SetApiKey key] else [])
   \<and> normalize_retries (Some 0) = 0
   \<and> normalize_retries (Some (- 3)) = 0
   \<and> filter is_Attempt (snd (llm_completion completion key 0)) = []"
  by (simp add: llm_completion_def normalize_retries_def)

section \<open>Properties of the source patcher\<close>

lemma patch_drops_top_level_print:
  "patch_generated_code ''async def run_once(t):\<newline>    return t\<newline>print(1)''
     = ''async def run_once(t):\<newline>    return t''"
  by code_simp

lemma step1_drops_top_level_print:
  "strip_run_once_prints ''async def run_once(t):\<newline>    return t\<newline>print(1)''
     = ''async def run_once(t):\<newline>    return t''"
  by (simp add: text_defs step1_defs)

text \<open>
  C4. The source comments this step as stripping the pure print lines inside
  \<open>run_once\<close>. The loop leaves the function only at a later \<open>def\<close> line indented
  no deeper than \<open>run_once\<close>. A print at top level that follows the body with no
  such line in between is therefore removed as well: here the third line is lost.
\<close>

theorem strip_prints_after_body:
  "strip_run_once_prints ''async def run_once(t):\<newline>    return t\<newline>print(1)''
     = ''async def run_once(t):\<newline>    return t''
   \<and> patch_generated_code ''async def run_once(t):\<newline>    return t\<newline>print(1)''
     = ''async def run_once(t):\<newline>    return t''"
  by (intro conjI) (rule step1_drops_top_level_print, rule patch_drops_top_level_print)

lemma step3_adds_no_header:
  "inject_constants ''session_service.create_session(app_name=APP_NAME, user_id=USER_ID, session_id=SESSION_ID)''
     = ''session_service.create_session(app_name=APP_NAME, user_id=USER_ID, session_id=SESSION_ID)''"
  by (simp add: inject_constants_def need_constants_def)

lemma step3_adds_unused_header:
  "inject_constants ''session_service.create_session(app_name=1)''
     = CONSTANTS_HEADER @ ''session_service.create_session(app_name=1)''"
  by (simp add: inject_constants_def need_constants_def)

lemma patch_adds_no_header:
  "patch_generated_code ''x = session_service.create_session(app_name=APP_NAME, user_id=USER_ID, session_id=SESSION_ID)''
     = ''x = session_service.create_session(app_name=APP_NAME, user_id=USER_ID, session_id=SESSION_ID)''"
  by code_simp

text \<open>
  C7. The source comments this step as ensuring that the three constants exist if
  missing. Its test is on the text alone: the header is added when the text mentions
  \<open>session_service.create_session\<close> and lacks one of the three names anywhere. A
  source that refers to all three without defining them gets no header, and a source
  that refers to none of them gets one.
\<close>

theorem inject_constants_referenced_undefined:
  "inject_constants ''session_service.create_session(app_name=APP_NAME, user_id=USER_ID, session_id=SESSION_ID)''
     = ''session_service.create_session(app_name=APP_NAME, user_id=USER_ID, session_id=SESSION_ID)''
   \<and> inject_constants ''session_service.create_session(app_name=1)''
     = CONSTANTS_HEADER @ ''session_service.create_session(app_name=1)''
   \<and> patch_generated_code ''x = session_service.create_session(app_name=APP_NAME, user_id=USER_ID, session_id=SESSION_ID)''
     = ''x = session_service.create_session(app_name=APP_NAME, user_id=USER_ID, session_id=SESSION_ID)''"
  by (intro conjI)
     (rule step3_adds_no_header, rule step3_adds_unused_header, rule patch_adds_no_header)

lemma skip_lit_iff: "skip_lit p s = Some r \<longleftrightarrow> s = p @ r"
  by (induction p s rule: skip_lit.induct) auto

lemma skip_lit_append [simp]: "skip_lit p (p @ r) = Some r"
  by (simp add: skip_lit_iff)

lemma rstrip_decomp: "s = rstrip s @ rev (takeWhile isspace (rev s))"
proof -
  have "rev (dropWhile isspace (rev s)) @ rev (takeWhile isspace (rev s))
          = rev (takeWhile isspace (rev s) @ dropWhile isspace (rev s))"
    by (simp only: rev_append)
  also have "\<dots> = s" by simp
  finally show ?thesis by (simp only: rstrip_def)
qed

lemma rstrip_trailing:
  assumes "list_all isspace w" "\<not> isspace c"
  shows "rstrip (a @ c # w) = a @ [c]"
proof -
  have "rev (a @ c # w) = rev w @ c # rev a" by simp
  moreover have "dropWhile isspace (rev w @ c # rev a) = c # rev a"
    using assms by (simp add: dropWhile_append3 list_all_iff)
  ultimately show ?thesis by (simp add: rstrip_def)
qed

lemma call_tail_Some_iff:
  "call_tail r = Some args \<longleftrightarrow>
     (\<exists>trail. r = args @ '')'' @ trail \<and> list_all isspace trail \<and> LF \<notin> set args)"
proof
  assume "call_tail r = Some args"
  then have t: "rstrip r \<noteq> []" "last (rstrip r) = CHR '')''" "LF \<notin> set args" "args = butlast (rstrip r)"
    by (auto simp: call_tail_def Let_def split: if_splits)
  then have "rstrip r = args @ '')''" by (metis append_butlast_last_id)
  moreover have "list_all isspace (rev (takeWhile isspace (rev r)))"
    by (simp add: list_all_iff) (meson set_takeWhileD)
  ultimately show "\<exists>trail. r = args @ '')'' @ trail \<and> list_all isspace trail \<and> LF \<notin> set args"
    using rstrip_decomp [of r] t(3) by (metis append_assoc)
next
  assume "\<exists>trail. r = args @ '')'' @ trail \<and> list_all isspace trail \<and> LF \<notin> set args"
  then obtain trail where r: "r = args @ CHR '')'' # trail" and sp: "list_all isspace trail"
    and nl: "LF \<notin> set args" by auto
  have "\<not> isspace (CHR '')'')" by (simp add: isspace_def)
  then have "rstrip r = args @ '')''" using rstrip_trailing [OF sp] r by simp
  then show "call_tail r = Some args" using nl by (simp add: call_tail_def)
qed

lemma skip_space1_Some_iff:
  "skip_space1 s = Some r \<longleftrightarrow>
     (\<exists>ws. s = ws @ r \<and> ws \<noteq> [] \<and> list_all isspace ws \<and> (r = [] \<or> \<not> isspace (hd r)))"
proof
  assume "skip_space1 s = Some r"
  then obtain c cs where s: "s = c # cs" "isspace c" "r = dropWhile isspace cs"
    by (auto simp: skip_space1_def split: list.splits if_splits)
  have "s = (c # takeWhile isspace cs) @ r" using s by simp
  moreover have "list_all isspace (c # takeWhile isspace cs)"
    using s(2) by (simp add: list_all_iff) (meson set_takeWhileD)
  moreover have "r = [] \<or> \<not> isspace (hd r)" using s(3) by (metis hd_dropWhile)
  ultimately show "\<exists>ws. s = ws @ r \<and> ws \<noteq> [] \<and> list_all isspace ws \<and> (r = [] \<or> \<not> isspace (hd r))"
    by blast
next
  assume "\<exists>ws. s = ws @ r \<and> ws \<noteq> [] \<and> list_all isspace ws \<and> (r = [] \<or> \<not> isspace (hd r))"
  then obtain ws where w: "s = ws @ r" "ws \<noteq> []" "list_all isspace ws" "r = [] \<or> \<not> isspace (hd r)"
    by blast
  then obtain c cs where ws: "ws = c # cs" by (cases ws) auto
  have "dropWhile isspace (cs @ r) = r"
  proof (cases r)
    case Nil
    then show ?thesis using w(3) ws by (simp add: list_all_iff)
  next
    case (Cons a as)
    then show ?thesis using w(3,4) ws by (simp add: dropWhile_append3 list_all_iff)
  qed
  then show "skip_space1 s = Some r" using w(1,3) ws by (simp add: skip_space1_def)
qed

lemma lead_space:
  assumes "list_all isspace indent" "r = [] \<or> \<not> isspace (hd r)"
  shows "takeWhile isspace (indent @ r) = indent" "dropWhile isspace (indent @ r) = r"
  using assms by (cases r; simp add: list_all_iff takeWhile_append2 dropWhile_append3)+

lemma create_session_match_sound:
  assumes "create_session_match line = Some (indent, args)"
  shows "bare_create_session_line line indent args"
proof -
  define r0 where "r0 = dropWhile isspace line"
  define r1 where "r1 = (case Option.bind (skip_lit ''await'' (dropWhile isspace line)) skip_space1
                          of Some r \<Rightarrow> r | None \<Rightarrow> dropWhile isspace line)"
  have r1_r0: "r1 = (case Option.bind (skip_lit ''await'' r0) skip_space1 of Some r \<Rightarrow> r | None \<Rightarrow> r0)"
    unfolding r1_def r0_def ..
  have "create_session_match line =
          Option.bind (skip_lit ''session_service.create_session('' r1)
            (\<lambda>r2. map_option (\<lambda>args. (takeWhile isspace line, args)) (call_tail r2))"
    by (simp add: create_session_match_def Let_def r1_def)
  with assms obtain r2 where ind: "indent = takeWhile isspace line"
    and r2: "skip_lit ''session_service.create_session('' r1 = Some r2"
    and ct: "call_tail r2 = Some args"
    by (auto split: Option.bind_splits)
  have line: "line = indent @ r0" by (simp add: ind r0_def)
  have sp: "list_all isspace indent" unfolding ind list_all_iff by (meson set_takeWhileD)
  have r1': "r1 = ''session_service.create_session('' @ r2" using r2 by (simp add: skip_lit_iff)
  from ct obtain trail where tr: "r2 = args @ '')'' @ trail" "list_all isspace trail" "LF \<notin> set args"
    by (auto simp: call_tail_Some_iff)
  have "\<exists>aw. r0 = aw @ r1 \<and> (aw = [] \<or> (\<exists>ws. aw = ''await'' @ ws \<and> ws \<noteq> [] \<and> list_all isspace ws))"
  proof (cases "Option.bind (skip_lit ''await'' r0) skip_space1")
    case None
    then show ?thesis by (simp add: r1_r0)
  next
    case (Some r)
    then obtain x where x: "skip_lit ''await'' r0 = Some x" "skip_space1 x = Some r"
      by (auto split: Option.bind_splits)
    then obtain ws where "x = ws @ r" "ws \<noteq> []" "list_all isspace ws"
      by (auto simp: skip_space1_Some_iff)
    moreover have "r0 = ''await'' @ x" using x(1) by (simp add: skip_lit_iff)
    moreover have "r1 = r" using Some by (simp add: r1_r0)
    ultimately show ?thesis by auto
  qed
  then obtain aw where aw: "r0 = aw @ r1"
    "aw = [] \<or> (\<exists>ws. aw = ''await'' @ ws \<and> ws \<noteq> [] \<and> list_all isspace ws)" by blast
  have "line = indent @ aw @ ''session_service.create_session('' @ args @ '')'' @ trail"
    using line aw(1) r1' tr(1) by simp
  then show ?thesis unfolding bare_create_session_line_def using sp aw(2) tr(2,3) by blast
qed

lemma create_session_match_complete:
  assumes "bare_create_session_line line indent args"
  shows "create_session_match line = Some (indent, args)"
proof -
  from assms obtain aw trail where
    line: "line = indent @ aw @ ''session_service.create_session('' @ args @ '')'' @ trail"
    and sp: "list_all isspace indent"
    and aw: "aw = [] \<or> (\<exists>ws. aw = ''await'' @ ws \<and> ws \<noteq> [] \<and> list_all isspace ws)"
    and tr: "list_all isspace trail" and nl: "LF \<notin> set args"
    unfolding bare_create_session_line_def by blast
  define r2 where "r2 = args @ '')'' @ trail"
  define r1 where "r1 = ''session_service.create_session('' @ r2"
  have ct: "call_tail r2 = Some args" unfolding call_tail_Some_iff r2_def using tr nl by blast
  have hd1: "\<not> isspace (hd r1)" "r1 \<noteq> []" by (simp_all add: r1_def isspace_def)
  have nsp: "aw @ r1 = [] \<or> \<not> isspace (hd (aw @ r1))"
    using aw hd1 by (auto simp: isspace_def)
  have l: "line = indent @ (aw @ r1)" using line by (simp add: r1_def r2_def)
  have tk: "takeWhile isspace line = indent" "dropWhile isspace line = aw @ r1"
    using lead_space [OF sp nsp] l by simp_all
  have "(case Option.bind (skip_lit ''await'' (aw @ r1)) skip_space1 of Some r \<Rightarrow> r | None \<Rightarrow> aw @ r1) = r1"
  proof (cases "aw = []")
    case True
    then show ?thesis by (simp add: r1_def)
  next
    case False
    then obtain ws where ws: "aw = ''await'' @ ws" "ws \<noteq> []" "list_all isspace ws" using aw by blast
    have "skip_lit ''await'' (aw @ r1) = Some (ws @ r1)"
      unfolding skip_lit_iff using ws(1) by simp
    moreover have "skip_space1 (ws @ r1) = Some r1"
      unfolding skip_space1_Some_iff using ws(2,3) hd1 by blast
    ultimately show ?thesis by simp
  qed
  moreover have "skip_lit ''session_service.create_session('' r1 = Some r2"
    unfolding skip_lit_iff by (simp add: r1_def)
  ultimately show ?thesis
    by (simp add: create_session_match_def Let_def tk ct)
qed

lemma create_session_match_iff:
  "create_session_match line = Some (indent, args) \<longleftrightarrow> bare_create_session_line line indent args"
  using create_session_match_sound create_session_match_complete by blast






section \<open>Properties of extraction and validation\<close>

lemma contains_sublist: "contains s t \<longleftrightarrow> sublist t s"
  by (induction s) (auto simp: startswith_prefix sublist_Cons_right)

lemma fixture_extract:
  "extract_code FIXTURE_TEXT = Some FIXTURE_BODY"
  by code_simp

lemma fixture_required: "list_all (contains FIXTURE_BODY) REQUIRED"
  by code_simp

lemma fixture_forbidden:
  "\<not> list_ex (\<lambda>m. re_search m None FIXTURE_BODY) [main_guard_at, input_text_at, print_call_at]"
  by code_simp

lemma required_sublist:
  "list_all (contains code) rs \<longleftrightarrow> (\<forall>s \<in> set rs. sublist s code)"
  by (simp add: list_all_iff contains_sublist)

text \<open>
  C3. A source that \<open>generate_adk_code\<close> accepts is the patch of an extracted code that
  contains each of the five required strings; the function-only generator and the
  generator of \<open>dynamic_agent.py\<close> return an extracted code that contains each of
  theirs. When a code is extracted and one of the required strings is absent, the
  generator raises its validation error, so nothing is patched or returned.
\<close>

theorem generated_code_contract:
  "(generate_adk_code completion key m = Inr out \<longrightarrow>
      (\<exists>code. out = patch_generated_code code \<and> (\<forall>s \<in> set REQUIRED. sublist s code)))
   \<and> (generate_adk_code_function_only completion key m = Inr out \<longrightarrow>
      (\<forall>s \<in> set REQUIRED. sublist s out))
   \<and> (generate_adk_code_da outcome = Inr out \<longrightarrow> (\<forall>s \<in> set REQUIRED_da. sublist s out))
   \<and> (fst (llm_completion completion key m) = Inr resp \<and> response_text resp = Inr text
        \<and> extract_code text = Some code \<and> \<not> (\<forall>s \<in> set REQUIRED. sublist s code) \<longrightarrow>
        generate_adk_code completion key m =
          Inl (Exc ValueError ''Generated code missing required ADK pieces.'')
        \<and> generate_adk_code_function_only completion key m =
          Inl (Exc ValueError ''Generated code missing required ADK pieces or run_once signature.''))
   \<and> (response_text (Some resp') = Inr text' \<and> extract_code_da text' = Some code'
        \<and> \<not> (\<forall>s \<in> set REQUIRED_da. sublist s code') \<longrightarrow>
        generate_adk_code_da (Inr resp') =
          Inl (Exc ValueError ''Generated code missing required ADK pieces.''))"
proof (intro conjI impI)
  assume "generate_adk_code completion key m = Inr out"
  then show "\<exists>code. out = patch_generated_code code \<and> (\<forall>s \<in> set REQUIRED. sublist s code)"
    unfolding generate_adk_code_def required_sublist
    by (auto split: sum.splits option.splits if_splits)
next
  assume "generate_adk_code_function_only completion key m = Inr out"
  then show "\<forall>s \<in> set REQUIRED. sublist s out"
    unfolding generate_adk_code_function_only_def required_sublist
    by (auto split: sum.splits option.splits if_splits)
next
  assume "generate_adk_code_da outcome = Inr out"
  then show "\<forall>s \<in> set REQUIRED_da. sublist s out"
    unfolding generate_adk_code_da_def required_sublist
    by (auto split: sum.splits option.splits if_splits)
next
  assume a: "fst (llm_completion completion key m) = Inr resp \<and> response_text resp = Inr text
        \<and> extract_code text = Some code \<and> \<not> (\<forall>s \<in> set REQUIRED. sublist s code)"
  then show "generate_adk_code completion key m =
          Inl (Exc ValueError ''Generated code missing required ADK pieces.'')"
    unfolding generate_adk_code_def required_sublist by simp
  from a show "generate_adk_code_function_only completion key m =
          Inl (Exc ValueError ''Generated code missing required ADK pieces or run_once signature.'')"
    unfolding generate_adk_code_function_only_def required_sublist by simp
next
  assume "response_text (Some resp') = Inr text' \<and> extract_code_da text' = Some code'
        \<and> \<not> (\<forall>s \<in> set REQUIRED_da. sublist s code')"
  then show "generate_adk_code_da (Inr resp') =
          Inl (Exc ValueError ''Generated code missing required ADK pieces.'')"
    unfolding generate_adk_code_da_def required_sublist by simp
qed

lemma fixture_llm:
  "fst (llm_completion fixture_completion [] 1)
     = Inr (Some [Some FIXTURE_TEXT])"
  "fst (llm_completion bare_completion [] 1)
     = Inr (Some [Some BARE_TEXT])"
  by (simp_all add: llm_completion_def fixture_completion_def bare_completion_def upto_rec1)

lemma fixture_extract_da:
  "extract_code_da FIXTURE_TEXT = Some FIXTURE_BODY"
  by code_simp

lemma fixture_required_da: "list_all (contains FIXTURE_BODY) REQUIRED_da"
  by code_simp

lemma bare_extract:
  "extract_code BARE_TEXT
     = Some BARE_BODY"
  "extract_code_da BARE_TEXT
     = Some BARE_BODY"
  by code_simp+

lemma bare_required:
  "\<not> list_all (contains BARE_BODY) REQUIRED"
  "\<not> list_all (contains BARE_BODY) REQUIRED_da"
  by code_simp+

theorem generated_code_contract_witness:
  "generate_adk_code fixture_completion [] 1 = Inr (patch_generated_code FIXTURE_BODY)
   \<and> generate_adk_code_function_only fixture_completion [] 1 = Inr FIXTURE_BODY
   \<and> generate_adk_code_da (fixture_completion 0) = Inr FIXTURE_BODY
   \<and> list_all (\<lambda>s. sublist s FIXTURE_BODY) REQUIRED
   \<and> list_all (\<lambda>s. sublist s FIXTURE_BODY) REQUIRED_da
   \<and> generate_adk_code bare_completion [] 1 =
        Inl (Exc ValueError ''Generated code missing required ADK pieces.'')
   \<and> generate_adk_code_function_only bare_completion [] 1 =
        Inl (Exc ValueError ''Generated code missing required ADK pieces or run_once signature.'')
   \<and> generate_adk_code_da (bare_completion 0) =
        Inl (Exc ValueError ''Generated code missing required ADK pieces.'')"
proof -
  have rt: "response_text (Some [Some x]) = Inr x" for x by (simp add: response_text_def)
  have g: "generate_adk_code fixture_completion [] 1 = Inr (patch_generated_code FIXTURE_BODY)"
    by (simp add: generate_adk_code_def fixture_llm rt fixture_extract fixture_required)
  have f: "generate_adk_code_function_only fixture_completion [] 1 = Inr FIXTURE_BODY"
    using fixture_forbidden
    by (simp add: generate_adk_code_function_only_def fixture_llm rt fixture_extract fixture_required)
  have d: "generate_adk_code_da (fixture_completion 0) = Inr FIXTURE_BODY"
    by (simp add: generate_adk_code_da_def fixture_completion_def rt fixture_extract_da
                  fixture_required_da)
  have nb: "\<not> (\<forall>s \<in> set REQUIRED. sublist s BARE_BODY)"
           "\<not> (\<forall>s \<in> set REQUIRED_da. sublist s BARE_BODY)"
    using bare_required [unfolded required_sublist] by blast+
  note c1 = generated_code_contract [of fixture_completion "[]" 1 FIXTURE_BODY
      "fixture_completion 0"
      "Some [Some FIXTURE_TEXT]"
      "FIXTURE_TEXT" FIXTURE_BODY]
  note c2 = generated_code_contract [of bare_completion "[]" 1 FIXTURE_BODY
      "fixture_completion 0"
      "Some [Some BARE_TEXT]"
      "BARE_TEXT"
      BARE_BODY
      "[Some BARE_TEXT]"
      "BARE_TEXT"
      BARE_BODY]
  have r1: "list_all (\<lambda>s. sublist s FIXTURE_BODY) REQUIRED"
    unfolding list_all_iff using c1 f by blast
  have r2: "list_all (\<lambda>s. sublist s FIXTURE_BODY) REQUIRED_da"
    unfolding list_all_iff using c1 d by blast
  have b1: "generate_adk_code bare_completion [] 1 =
        Inl (Exc ValueError ''Generated code missing required ADK pieces.'')"
    and b2: "generate_adk_code_function_only bare_completion [] 1 =
        Inl (Exc ValueError ''Generated code missing required ADK pieces or run_once signature.'')"
    using c2 fixture_llm(2) rt bare_extract(1) nb(1) by blast+
  have b3: "generate_adk_code_da (bare_completion 0) =
        Inl (Exc ValueError ''Generated code missing required ADK pieces.'')"
    using c2 rt bare_extract(2) nb(2) unfolding bare_completion_def by blast
  from g f d r1 r2 b1 b2 b3 show ?thesis by blast
qed

section \<open>Properties of the sandboxed executor\<close>

lemmas run_defs = run_generated_adk_def toy_runtime_def toy_exec_def exec_stmt_def lookup_name_def
  eval_name_def get_attr_def toy_module_attr_def
  builtins_of_def name_error_def parse_stmt_def exec_globals_def safe_builtins_def
  SAFE_BUILTIN_NAMES_def safe_import_def startswith_any_def ALLOWED_MODULE_PREFIXES_def
  ALLOWED_STD_MODULES_def

text \<open>
  C8, as the code has it. In whole-script mode an exception of the executed code that
  is an instance of \<open>Exception\<close> is re-raised as a \<open>RuntimeError\<close> whose message is the
  exception's text followed by the standard output captured up to the failure. An
  exception that derives from \<open>BaseException\<close> only is not caught by
  \<open>except Exception\<close> and reaches the caller as it is.
\<close>

theorem run_generated_adk_wraps_exceptions:
  "(compile_error rt code = None
      \<and> raised (exec_code rt code (exec_globals (has_builtin rt) input_text)) = Some e
      \<and> is_Exception e \<longrightarrow>
      run_generated_adk rt code input_text False =
        Inl (Exc RuntimeError
               (''Error while executing generated code: '' @ exc_str e @ [LF, LF]
                @ ''Captured stdout:'' @ [LF]
                @ stdout (exec_code rt code (exec_globals (has_builtin rt) input_text))))
      \<and> sublist (stdout (exec_code rt code (exec_globals (has_builtin rt) input_text)))
           (''Error while executing generated code: '' @ exc_str e @ [LF, LF]
                @ ''Captured stdout:'' @ [LF]
                @ stdout (exec_code rt code (exec_globals (has_builtin rt) input_text))))
   \<and> (compile_error rt code = None
      \<and> raised (exec_code rt code (exec_globals (has_builtin rt) input_text)) = Some e
      \<and> \<not> is_Exception e \<longrightarrow>
      run_generated_adk rt code input_text False = Inl e)"
proof -
  define r where "r = exec_code rt code (exec_globals (has_builtin rt) input_text)"
  have "sublist (stdout r)
          ((''Error while executing generated code: '' @ exc_str e @ [LF, LF]
            @ ''Captured stdout:'' @ [LF]) @ stdout r)"
    by (rule sublist_append_leftI)
  then have sub: "sublist (stdout r)
          (''Error while executing generated code: '' @ exc_str e @ [LF, LF]
            @ ''Captured stdout:'' @ [LF] @ stdout r)"
    by simp
  have wrap: "compile_error rt code = None \<Longrightarrow> raised r = Some e \<Longrightarrow> is_Exception e \<Longrightarrow>
      run_generated_adk rt code input_text False =
        Inl (Exc RuntimeError
               (''Error while executing generated code: '' @ exc_str e @ [LF, LF]
                @ ''Captured stdout:'' @ [LF] @ stdout r))"
    by (simp add: run_generated_adk_def Let_def r_def)
  have pass: "compile_error rt code = None \<Longrightarrow> raised r = Some e \<Longrightarrow> \<not> is_Exception e \<Longrightarrow>
      run_generated_adk rt code input_text False = Inl e"
    by (simp add: run_generated_adk_def Let_def r_def)
  from sub wrap pass show ?thesis unfolding r_def by blast
qed

lemma toy_value_error:
  "toy_exec ''print(INPUT_TEXT)\<newline>raise ValueError'' (exec_globals (\<lambda>n. True) ''hi'')
     = \<lparr>raised = Some (Exc (OtherException ''ValueError'') []), stdout = ''hi\<newline>'',
        globals_after = exec_globals (\<lambda>n. True) ''hi''\<rparr>"
  by (simp add: run_defs text_defs)

text \<open>
  \<open>BaseException\<close> is one of the safe built-in names, so generated code can raise it;
  it leaves the executor unwrapped and without the captured output.
\<close>

theorem run_generated_adk_base_exception:
  "run_generated_adk toy_runtime ''print(INPUT_TEXT)\<newline>raise BaseException'' ''hi'' False
     = Inl (Exc (BaseOnly ''BaseException'') [])"
  by (simp add: run_defs text_defs)








theorem run_generated_adk_wraps_exceptions_witness:
  "run_generated_adk toy_runtime ''print(INPUT_TEXT)\<newline>raise ValueError'' ''hi'' False
     = Inl (Exc RuntimeError
         (''Error while executing generated code: '' @ [LF, LF] @ ''Captured stdout:'' @ [LF]
          @ ''hi'' @ [LF]))"
proof -
  have rt: "compile_error toy_runtime ''print(INPUT_TEXT)\<newline>raise ValueError'' = None"
           "has_builtin toy_runtime = (\<lambda>n. True)" "exec_code toy_runtime = toy_exec"
    by (simp_all add: toy_runtime_def)
  have e: "is_Exception (Exc (OtherException ''ValueError'') [])" by simp
  from run_generated_adk_wraps_exceptions
         [of toy_runtime "''print(INPUT_TEXT)\<newline>raise ValueError''" "''hi''"
             "Exc (OtherException ''ValueError'') []"]
  show ?thesis unfolding rt toy_value_error using e by (simp add: LF_def)
qed

lemma safe_builtins_keys:
  "fst ` set (safe_builtins hb) \<subseteq> set SAFE_BUILTIN_NAMES \<union> {''__import__''}"
  by (auto simp: safe_builtins_def)

















end
